theory Spec2Isabelle
  imports Complex_Main
begin

section \<open>Bond price calculator: the pricing function and the sensitivity curve\<close>

text \<open>
  The repository holds two copies of \<^verbatim>\<open>calculate_bond_price\<close>: the command-line one in
  \<^verbatim>\<open>bond_pricer.py\<close>, which takes the maturity date as a string, and the Streamlit one in
  \<^verbatim>\<open>bond_dashboard.py\<close>, which takes a \<^verbatim>\<open>datetime.date\<close>. Both are embedded below, together
  with the statements of the dashboard's \<^verbatim>\<open>main\<close> that sample the price curve.

  Conventions of the embedding.
  \<^item> A \<^verbatim>\<open>datetime.date\<close> is its proleptic Gregorian ordinal, an \<open>int\<close>: comparison of dates
    is comparison of ordinals and \<^verbatim>\<open>(a - b).days\<close> is their difference.
  \<^item> A Python \<^verbatim>\<open>float\<close> is a \<open>real\<close>: rounding, overflow and underflow of IEEE doubles are
    not modelled. What is modelled is where float arithmetic stops yielding a number:
    Python raises \<^verbatim>\<open>ZeroDivisionError\<close>, numpy yields an infinity or a NaN.
  \<^item> \<^verbatim>\<open>coupon_frequency_per_year\<close> is a Python \<^verbatim>\<open>int\<close>, an \<open>int\<close> here.
  \<^item> Everything the functions read or write besides their arguments is a field of
    \<open>world\<close>: the date the system clock reports, the lines printed on standard output,
    and the error boxes put on the Streamlit page.
\<close>

subsection \<open>Values, errors and the outside world\<close>

datatype py_error = ZeroDivisionError

text \<open>
  What a call hands back: \<^verbatim>\<open>None\<close>, a finite float, or a float that is an infinity or a
  NaN (\<^verbatim>\<open>np.nan\<close> is one of these).
\<close>

datatype py_value = PyNone | PyFloat real | PyNonFinite

record world =
  clock :: int
  stdout :: "string list"
  page :: "string list"

definition print :: "string \<Rightarrow> world \<Rightarrow> world" where
  "print msg w = w\<lparr>stdout := stdout w @ [msg]\<rparr>"

definition st_error :: "string \<Rightarrow> world \<Rightarrow> world" where
  "st_error msg w = w\<lparr>page := page w @ [msg]\<rparr>"

subsection \<open>Float operations that can fail\<close>

text \<open>
  \<^verbatim>\<open>x ** n\<close> for a Python float \<open>x\<close> and a Python int \<open>n\<close> (what \<^verbatim>\<open>math.ceil\<close> returns):
  a zero base with a negative exponent raises.
\<close>

definition py_pow :: "real \<Rightarrow> int \<Rightarrow> py_error + real" where
  "py_pow x n =
     (if n < 0 then (if x = 0 then Inl ZeroDivisionError else Inr (1 / x ^ nat (- n)))
      else Inr (x ^ nat n))"

definition py_div :: "real \<Rightarrow> real \<Rightarrow> py_error + real" where
  "py_div a b = (if b = 0 then Inl ZeroDivisionError else Inr (a / b))"

text \<open>
  The same operations when an operand is a \<^verbatim>\<open>np.float64\<close> (what \<^verbatim>\<open>np.ceil\<close> returns):
  numpy does not raise, the result is an infinity or a NaN, here \<open>None\<close>.
\<close>

definition np_power :: "real \<Rightarrow> int \<Rightarrow> real option" where
  "np_power x n =
     (if n < 0 then (if x = 0 then None else Some (1 / x ^ nat (- n)))
      else Some (x ^ nat n))"

definition np_divide :: "real \<Rightarrow> real \<Rightarrow> real option" where
  "np_divide a b = (if b = 0 then None else Some (a / b))"

subsection \<open>The quantities both copies compute\<close>

definition years_to_maturity :: "int \<Rightarrow> int \<Rightarrow> real" where
  "years_to_maturity maturity_date today = real_of_int (maturity_date - today) / 365.25"

definition num_periods :: "int \<Rightarrow> int \<Rightarrow> int \<Rightarrow> int" where
  "num_periods maturity_date today coupon_frequency_per_year =
     \<lceil>years_to_maturity maturity_date today * real_of_int coupon_frequency_per_year\<rceil>"

definition periodic_coupon_payment :: "real \<Rightarrow> real \<Rightarrow> int \<Rightarrow> real" where
  "periodic_coupon_payment face_value coupon_rate coupon_frequency_per_year =
     (face_value * coupon_rate) / real_of_int coupon_frequency_per_year"

definition periodic_ytm :: "real \<Rightarrow> int \<Rightarrow> real" where
  "periodic_ytm ytm coupon_frequency_per_year = ytm / real_of_int coupon_frequency_per_year"

subsection \<open>\<^verbatim>\<open>bond_pricer.py\<close>: \<^verbatim>\<open>calculate_bond_price\<close>\<close>

text \<open>
  \<open>strptime\<close> stands for \<^verbatim>\<open>datetime.strptime(s, '%Y-%m-%d').date()\<close> of the standard
  library: \<open>None\<close> where it raises \<^verbatim>\<open>ValueError\<close>. The function is a parameter, so every
  statement below holds whatever strings the library accepts.
\<close>

definition calculate_bond_price ::
  "(string \<Rightarrow> int option) \<Rightarrow> real \<Rightarrow> real \<Rightarrow> string \<Rightarrow> real \<Rightarrow> int \<Rightarrow> world
     \<Rightarrow> (py_error + py_value) \<times> world" where
  "calculate_bond_price strptime face_value coupon_rate maturity_date_str ytm
       coupon_frequency_per_year w =
     (case strptime maturity_date_str of
        None \<Rightarrow>
          (Inr PyNone,
           print ''Error: Invalid maturity date format. Please use YYYY-MM-DD (e.g., 2030-12-31).'' w)
      | Some maturity_date \<Rightarrow>
          (let today = clock w in
           if maturity_date < today then
             (Inr PyNone,
              print ''Error: Maturity date cannot be in the past. Please enter a future date.'' w)
           else if coupon_frequency_per_year \<le> 0 then
             (Inr PyNone,
              print ''Error: Coupon frequency must be a positive integer (e.g., 1, 2, 4).'' w)
           else
             (let n = num_periods maturity_date today coupon_frequency_per_year in
              if n \<le> 0 then (Inr (PyFloat face_value), w)
              else
                (let c = periodic_coupon_payment face_value coupon_rate coupon_frequency_per_year;
                     r = periodic_ytm ytm coupon_frequency_per_year
                 in
                   (case (if r = 0 then Inr (c * real_of_int n)
                          else (case py_pow (1 + r) (- n) of
                                  Inl e \<Rightarrow> Inl e
                                | Inr p \<Rightarrow> Inr (c * ((1 - p) / r)))) of
                      Inl e \<Rightarrow> (Inl e, w)
                    | Inr pv_coupons \<Rightarrow>
                        (case py_pow (1 + r) n of
                           Inl e \<Rightarrow> (Inl e, w)
                         | Inr d \<Rightarrow>
                             (case py_div face_value d of
                                Inl e \<Rightarrow> (Inl e, w)
                              | Inr pv_face_value \<Rightarrow>
                                  (Inr (PyFloat (pv_coupons + pv_face_value)), w))))))))"

subsection \<open>\<^verbatim>\<open>bond_dashboard.py\<close>: \<^verbatim>\<open>calculate_bond_price\<close>\<close>

definition calculate_bond_price_dashboard ::
  "real \<Rightarrow> real \<Rightarrow> int \<Rightarrow> real \<Rightarrow> int \<Rightarrow> world \<Rightarrow> py_value \<times> world" where
  "calculate_bond_price_dashboard face_value coupon_rate maturity_date ytm
       coupon_frequency_per_year w =
     (let today = clock w in
      if maturity_date < today then
        (PyNone,
         st_error ''Error: Maturity date cannot be in the past. Please select a future date.'' w)
      else if coupon_frequency_per_year \<le> 0 then
        (PyNone, st_error ''Error: Coupon frequency must be a positive integer.'' w)
      else
        (let n = num_periods maturity_date today coupon_frequency_per_year in
         if n \<le> 0 then (PyFloat face_value, w)
         else
           (let c = periodic_coupon_payment face_value coupon_rate coupon_frequency_per_year;
                r = periodic_ytm ytm coupon_frequency_per_year;
                pv_coupons =
                  (if r = 0 then Some (c * real_of_int n)
                   else (case np_power (1 + r) (- n) of
                           None \<Rightarrow> None
                         | Some p \<Rightarrow> Some (c * ((1 - p) / r))));
                pv_face_value =
                  (case np_power (1 + r) n of
                     None \<Rightarrow> None
                   | Some d \<Rightarrow> np_divide face_value d)
            in
              (case (pv_coupons, pv_face_value) of
                 (Some a, Some b) \<Rightarrow> (PyFloat (a + b), w)
               | _ \<Rightarrow> (PyNonFinite, w)))))"

subsection \<open>\<^verbatim>\<open>bond_dashboard.py\<close>: the price curve sampled in \<^verbatim>\<open>main\<close>\<close>







text \<open>Scaling a returned value: a price is multiplied, anything else is left as it is.\<close>

definition scale_value :: "real \<Rightarrow> py_value \<Rightarrow> py_value" where
  "scale_value k v = (case v of PyFloat p \<Rightarrow> PyFloat (k * p) | _ \<Rightarrow> v)"

section \<open>Properties\<close>

subsection \<open>Auxiliary facts\<close>

lemma num_periods_same: "num_periods d d f = 0"
  by (simp add: num_periods_def years_to_maturity_def)


lemma cbp_general:
  assumes "strptime s = Some md" "clock w \<le> md" "0 < f" "0 < num_periods md (clock w) f"
    "1 + periodic_ytm ytm f \<noteq> 0"
  shows "calculate_bond_price strptime fv cr s ytm f w =
    (Inr (PyFloat ((if periodic_ytm ytm f = 0
              then periodic_coupon_payment fv cr f * real_of_int (num_periods md (clock w) f)
              else periodic_coupon_payment fv cr f *
                   ((1 - 1 / (1 + periodic_ytm ytm f) ^ nat (num_periods md (clock w) f)) / periodic_ytm ytm f))
           + fv / (1 + periodic_ytm ytm f) ^ nat (num_periods md (clock w) f))), w)"
  using assms by (simp add: calculate_bond_price_def Let_def py_pow_def py_div_def)

lemma dash_general:
  assumes "clock w \<le> md" "0 < f" "0 < num_periods md (clock w) f"
    "1 + periodic_ytm ytm f \<noteq> 0"
  shows "calculate_bond_price_dashboard fv cr md ytm f w =
    (PyFloat ((if periodic_ytm ytm f = 0
              then periodic_coupon_payment fv cr f * real_of_int (num_periods md (clock w) f)
              else periodic_coupon_payment fv cr f *
                   ((1 - 1 / (1 + periodic_ytm ytm f) ^ nat (num_periods md (clock w) f)) / periodic_ytm ytm f))
           + fv / (1 + periodic_ytm ytm f) ^ nat (num_periods md (clock w) f)), w)"
  using assms by (simp add: calculate_bond_price_dashboard_def Let_def np_power_def np_divide_def)

lemma cbp_singular:
  assumes "strptime s = Some md" "clock w \<le> md" "0 < f" "0 < num_periods md (clock w) f"
    "1 + periodic_ytm ytm f = 0"
  shows "calculate_bond_price strptime fv cr s ytm f w = (Inl ZeroDivisionError, w)"
proof -
  have "periodic_ytm ytm f \<noteq> 0" using assms(5) by auto
  then show ?thesis using assms
    by (simp add: calculate_bond_price_def Let_def py_pow_def py_div_def)
qed

lemma dash_singular:
  assumes "clock w \<le> md" "0 < f" "0 < num_periods md (clock w) f"
    "1 + periodic_ytm ytm f = 0"
  shows "calculate_bond_price_dashboard fv cr md ytm f w = (PyNonFinite, w)"
proof -
  have "periodic_ytm ytm f \<noteq> 0" using assms(4) by auto
  then show ?thesis using assms
    by (simp add: calculate_bond_price_dashboard_def Let_def np_power_def np_divide_def)
qed

lemma cbp_shortcut:
  assumes "strptime s = Some md" "clock w \<le> md" "0 < f" "num_periods md (clock w) f \<le> 0"
  shows "calculate_bond_price strptime fv cr s ytm f w = (Inr (PyFloat fv), w)"
  using assms by (simp add: calculate_bond_price_def Let_def)

lemma dash_shortcut:
  assumes "clock w \<le> md" "0 < f" "num_periods md (clock w) f \<le> 0"
  shows "calculate_bond_price_dashboard fv cr md ytm f w = (PyFloat fv, w)"
  using assms by (simp add: calculate_bond_price_dashboard_def Let_def)

lemma np1: "num_periods 740290 739924 2 = 3"
  unfolding num_periods_def years_to_maturity_def
  by (rule ceiling_unique) simp_all

lemma zero_yield_example:
  "calculate_bond_price (\<lambda>s. Some 740290) 1000 (5 / 100) ''2027-11-05'' 0 2
       \<lparr>clock = 739924, stdout = [], page = []\<rparr>
     = (Inr (PyFloat 1075), \<lparr>clock = 739924, stdout = [], page = []\<rparr>)"
  "calculate_bond_price_dashboard 1000 (5 / 100) 740290 0 2
       \<lparr>clock = 739924, stdout = [], page = []\<rparr>
     = (PyFloat 1075, \<lparr>clock = 739924, stdout = [], page = []\<rparr>)"
  by (simp_all add: np1 calculate_bond_price_def calculate_bond_price_dashboard_def Let_def
      py_pow_def py_div_def np_power_def np_divide_def periodic_ytm_def
      periodic_coupon_payment_def)

subsection \<open>The number of periods and the face-value shortcut\<close>



text \<open>
  C3: for an input that passes validation and either matures today or has a number of
  periods that is not positive, both functions return the face value itself, and print
  nothing.
\<close>

theorem matured_price_is_face_value:
  assumes "strptime maturity_date_str = Some maturity_date"
    and "clock w \<le> maturity_date"
    and "1 \<le> coupon_frequency_per_year"
    and "maturity_date = clock w \<or> num_periods maturity_date (clock w) coupon_frequency_per_year \<le> 0"
  shows "calculate_bond_price strptime face_value coupon_rate maturity_date_str ytm
           coupon_frequency_per_year w = (Inr (PyFloat face_value), w)
       \<and> calculate_bond_price_dashboard face_value coupon_rate maturity_date ytm
           coupon_frequency_per_year w = (PyFloat face_value, w)"
proof -
  have "num_periods maturity_date (clock w) coupon_frequency_per_year \<le> 0"
    using assms(4) num_periods_same[of "clock w" coupon_frequency_per_year] by auto
  moreover have "0 < coupon_frequency_per_year" using assms(3) by simp
  ultimately show ?thesis
    using assms(1,2) by (simp add: cbp_shortcut dash_shortcut)
qed

theorem matured_price_is_face_value_witness:
  "calculate_bond_price (\<lambda>s. Some 739924) 1000 (5 / 100) ''2026-11-04'' (4 / 100) 2
       \<lparr>clock = 739924, stdout = [], page = []\<rparr>
     = (Inr (PyFloat 1000), \<lparr>clock = 739924, stdout = [], page = []\<rparr>)
   \<and> calculate_bond_price_dashboard 1000 (5 / 100) 739924 (4 / 100) 2
       \<lparr>clock = 739924, stdout = [], page = []\<rparr>
     = (PyFloat 1000, \<lparr>clock = 739924, stdout = [], page = []\<rparr>)"
  using matured_price_is_face_value
    [of "\<lambda>s. Some 739924" "''2026-11-04''" 739924 "\<lparr>clock = 739924, stdout = [], page = []\<rparr>" 2
        1000 "5 / 100" "4 / 100"]
  by simp

subsection \<open>The price on the discounting branch\<close>






text \<open>
  C10: for an input that passes validation and a positive factor \<open>k\<close>, multiplying the face
  value by \<open>k\<close> multiplies the price by \<open>k\<close>, on the face-value shortcut and on the
  discounting branch alike. Where no price comes back (the zero base above) none comes
  back for the scaled bond either.
\<close>

theorem price_scales_with_face_value:
  assumes "strptime maturity_date_str = Some maturity_date"
    and "clock w \<le> maturity_date"
    and "1 \<le> coupon_frequency_per_year"
    and "0 < k"
  shows "fst (calculate_bond_price strptime (k * face_value) coupon_rate maturity_date_str ytm
                coupon_frequency_per_year w)
         = map_sum id (scale_value k)
             (fst (calculate_bond_price strptime face_value coupon_rate maturity_date_str ytm
                     coupon_frequency_per_year w))
       \<and> fst (calculate_bond_price_dashboard (k * face_value) coupon_rate maturity_date ytm
                coupon_frequency_per_year w)
         = scale_value k
             (fst (calculate_bond_price_dashboard face_value coupon_rate maturity_date ytm
                     coupon_frequency_per_year w))"
proof -
  let ?n = "num_periods maturity_date (clock w) coupon_frequency_per_year"
  let ?r = "periodic_ytm ytm coupon_frequency_per_year"
  have f: "0 < coupon_frequency_per_year" using assms(3) by simp
  show ?thesis
  proof (cases "?n \<le> 0")
    case True
    then show ?thesis
      using assms(1,2) f by (simp add: cbp_shortcut dash_shortcut scale_value_def)
  next
    case False
    then have n: "0 < ?n" by simp
    show ?thesis
    proof (cases "1 + ?r = 0")
      case True
      then show ?thesis
        using assms(1,2) f n by (simp add: cbp_singular dash_singular scale_value_def)
    next
      case False
      have c: "periodic_coupon_payment (k * face_value) coupon_rate coupon_frequency_per_year
                 = k * periodic_coupon_payment face_value coupon_rate coupon_frequency_per_year"
        "periodic_coupon_payment (face_value * k) coupon_rate coupon_frequency_per_year
                 = k * periodic_coupon_payment face_value coupon_rate coupon_frequency_per_year"
        by (simp_all add: periodic_coupon_payment_def)
      show ?thesis
        using assms(1,2) f n False
        by (simp add: cbp_general dash_general scale_value_def c algebra_simps)
    qed
  qed
qed

theorem price_scales_with_face_value_witness:
  "fst (calculate_bond_price (\<lambda>s. Some 740290) (3 * 1000) (5 / 100) ''2027-11-05'' 0 2
          \<lparr>clock = 739924, stdout = [], page = []\<rparr>) = Inr (PyFloat (3 * 1075))
   \<and> fst (calculate_bond_price_dashboard (3 * 1000) (5 / 100) 740290 0 2
          \<lparr>clock = 739924, stdout = [], page = []\<rparr>) = PyFloat (3 * 1075)"
  using price_scales_with_face_value
    [of "\<lambda>s. Some 740290" "''2027-11-05''" 740290 "\<lparr>clock = 739924, stdout = [], page = []\<rparr>" 2
        3 1000 "5 / 100" 0]
    zero_yield_example
  by (simp add: scale_value_def)

subsection \<open>Validation, and what a failure does\<close>




text \<open>
  C7, as the code has it: on a validation failure the function itself emits the error
  message (\<^verbatim>\<open>print\<close> in \<^verbatim>\<open>bond_pricer.py\<close>, \<^verbatim>\<open>st.error\<close> in \<^verbatim>\<open>bond_dashboard.py\<close>) and returns
  \<^verbatim>\<open>None\<close>, the same value for every kind of failure; the message is all that tells the
  kinds apart. When validation passes nothing is emitted and the world is left as it was.
\<close>

theorem failure_is_printed_and_returns_None:
  "(strptime maturity_date_str = None \<longrightarrow>
      calculate_bond_price strptime face_value coupon_rate maturity_date_str ytm
          coupon_frequency_per_year w
        = (Inr PyNone,
           print ''Error: Invalid maturity date format. Please use YYYY-MM-DD (e.g., 2030-12-31).'' w))
   \<and> (strptime maturity_date_str = Some maturity_date \<and> maturity_date < clock w \<longrightarrow>
      calculate_bond_price strptime face_value coupon_rate maturity_date_str ytm
          coupon_frequency_per_year w
        = (Inr PyNone,
           print ''Error: Maturity date cannot be in the past. Please enter a future date.'' w))
   \<and> (strptime maturity_date_str = Some maturity_date \<and> clock w \<le> maturity_date
        \<and> coupon_frequency_per_year \<le> 0 \<longrightarrow>
      calculate_bond_price strptime face_value coupon_rate maturity_date_str ytm
          coupon_frequency_per_year w
        = (Inr PyNone,
           print ''Error: Coupon frequency must be a positive integer (e.g., 1, 2, 4).'' w))
   \<and> (strptime maturity_date_str = Some maturity_date \<and> clock w \<le> maturity_date
        \<and> 0 < coupon_frequency_per_year \<longrightarrow>
      fst (calculate_bond_price strptime face_value coupon_rate maturity_date_str ytm
          coupon_frequency_per_year w) \<noteq> Inr PyNone
      \<and> snd (calculate_bond_price strptime face_value coupon_rate maturity_date_str ytm
          coupon_frequency_per_year w) = w)
   \<and> (maturity_date < clock w \<longrightarrow>
      calculate_bond_price_dashboard face_value coupon_rate maturity_date ytm
          coupon_frequency_per_year w
        = (PyNone,
           st_error ''Error: Maturity date cannot be in the past. Please select a future date.'' w))
   \<and> (clock w \<le> maturity_date \<and> coupon_frequency_per_year \<le> 0 \<longrightarrow>
      calculate_bond_price_dashboard face_value coupon_rate maturity_date ytm
          coupon_frequency_per_year w
        = (PyNone, st_error ''Error: Coupon frequency must be a positive integer.'' w))
   \<and> (clock w \<le> maturity_date \<and> 0 < coupon_frequency_per_year \<longrightarrow>
      fst (calculate_bond_price_dashboard face_value coupon_rate maturity_date ytm
          coupon_frequency_per_year w) \<noteq> PyNone
      \<and> snd (calculate_bond_price_dashboard face_value coupon_rate maturity_date ytm
          coupon_frequency_per_year w) = w)"
proof -
  let ?n = "num_periods maturity_date (clock w) coupon_frequency_per_year"
  let ?r = "periodic_ytm ytm coupon_frequency_per_year"
  have ok: "fst (calculate_bond_price strptime face_value coupon_rate maturity_date_str ytm
                   coupon_frequency_per_year w) \<noteq> Inr PyNone
            \<and> snd (calculate_bond_price strptime face_value coupon_rate maturity_date_str ytm
                   coupon_frequency_per_year w) = w"
    if "strptime maturity_date_str = Some maturity_date" "clock w \<le> maturity_date"
       "0 < coupon_frequency_per_year"
  proof -
    consider "?n \<le> 0" | "0 < ?n" "1 + ?r = 0" | "0 < ?n" "1 + ?r \<noteq> 0" by linarith
    then show ?thesis
      using that by cases (simp_all add: cbp_shortcut cbp_singular cbp_general)
  qed
  have ok': "fst (calculate_bond_price_dashboard face_value coupon_rate maturity_date ytm
                   coupon_frequency_per_year w) \<noteq> PyNone
            \<and> snd (calculate_bond_price_dashboard face_value coupon_rate maturity_date ytm
                   coupon_frequency_per_year w) = w"
    if "clock w \<le> maturity_date" "0 < coupon_frequency_per_year"
  proof -
    consider "?n \<le> 0" | "0 < ?n" "1 + ?r = 0" | "0 < ?n" "1 + ?r \<noteq> 0" by linarith
    then show ?thesis
      using that by cases (simp_all add: dash_shortcut dash_singular dash_general)
  qed
  show ?thesis
    using ok ok'
    by (simp add: calculate_bond_price_def calculate_bond_price_dashboard_def)
qed

theorem failure_is_printed_and_returns_None_witness:
  "calculate_bond_price (\<lambda>s. None) 1000 (5 / 100) ''05/11/2027'' (4 / 100) 2
       \<lparr>clock = 739924, stdout = [], page = []\<rparr>
     = (Inr PyNone,
        \<lparr>clock = 739924,
         stdout = [''Error: Invalid maturity date format. Please use YYYY-MM-DD (e.g., 2030-12-31).''],
         page = []\<rparr>)
   \<and> calculate_bond_price_dashboard 1000 (5 / 100) 739923 (4 / 100) 2
       \<lparr>clock = 739924, stdout = [], page = []\<rparr>
     = (PyNone,
        \<lparr>clock = 739924, stdout = [],
         page = [''Error: Maturity date cannot be in the past. Please select a future date.'']\<rparr>)
   \<and> calculate_bond_price_dashboard 1000 (5 / 100) 740290 (4 / 100) 0
       \<lparr>clock = 739924, stdout = [], page = []\<rparr>
     = (PyNone,
        \<lparr>clock = 739924, stdout = [],
         page = [''Error: Coupon frequency must be a positive integer.'']\<rparr>)
   \<and> snd (calculate_bond_price (\<lambda>s. Some 740290) 1000 (5 / 100) ''2027-11-05'' (4 / 100) 2
       \<lparr>clock = 739924, stdout = [], page = []\<rparr>)
     = \<lparr>clock = 739924, stdout = [], page = []\<rparr>"
  using failure_is_printed_and_returns_None
    [of "\<lambda>s. None" "''05/11/2027''" 1000 "5 / 100" "4 / 100" 2
        "\<lparr>clock = 739924, stdout = [], page = []\<rparr>" 739923]
    failure_is_printed_and_returns_None
    [of "\<lambda>s. Some 740290" "''2027-11-05''" 1000 "5 / 100" "4 / 100" 0
        "\<lparr>clock = 739924, stdout = [], page = []\<rparr>" 740290]
    failure_is_printed_and_returns_None
    [of "\<lambda>s. Some 740290" "''2027-11-05''" 1000 "5 / 100" "4 / 100" 2
        "\<lparr>clock = 739924, stdout = [], page = []\<rparr>" 740290]
  by (simp add: print_def st_error_def)

text \<open>
  A maturity date in the past and a coupon frequency of 0: each call prints its message
  from inside the function, and both return the same \<^verbatim>\<open>None\<close>.
\<close>

theorem failure_prints_and_is_not_discriminated:
  "calculate_bond_price (\<lambda>s. Some 739923) 1000 (5 / 100) ''2026-11-03'' (4 / 100) 2
       \<lparr>clock = 739924, stdout = [], page = []\<rparr>
     = (Inr PyNone,
        \<lparr>clock = 739924,
         stdout = [''Error: Maturity date cannot be in the past. Please enter a future date.''],
         page = []\<rparr>)
   \<and> calculate_bond_price (\<lambda>s. Some 740290) 1000 (5 / 100) ''2027-11-05'' (4 / 100) 0
       \<lparr>clock = 739924, stdout = [], page = []\<rparr>
     = (Inr PyNone,
        \<lparr>clock = 739924,
         stdout = [''Error: Coupon frequency must be a positive integer (e.g., 1, 2, 4).''],
         page = []\<rparr>)"
  by (simp add: calculate_bond_price_def print_def)

subsection \<open>The system clock\<close>

text \<open>
  C6, as the code has it: the result is a function of the explicit arguments and of the
  date the system clock reports, which the function reads itself (\<^verbatim>\<open>date.today()\<close>). Two
  calls with equal arguments on the same day return equal results, whatever was printed
  before.
\<close>

theorem result_depends_on_clock_only:
  assumes "clock w1 = clock w2"
  shows "fst (calculate_bond_price strptime face_value coupon_rate maturity_date_str ytm
                coupon_frequency_per_year w1)
         = fst (calculate_bond_price strptime face_value coupon_rate maturity_date_str ytm
                coupon_frequency_per_year w2)
       \<and> fst (calculate_bond_price_dashboard face_value coupon_rate maturity_date ytm
                coupon_frequency_per_year w1)
         = fst (calculate_bond_price_dashboard face_value coupon_rate maturity_date ytm
                coupon_frequency_per_year w2)"
  using assms
  by (simp add: calculate_bond_price_def calculate_bond_price_dashboard_def Let_def
      split: option.splits sum.splits)

theorem result_depends_on_clock_only_witness:
  "fst (calculate_bond_price (\<lambda>s. Some 740290) 1000 (5 / 100) ''2027-11-05'' 0 2
          \<lparr>clock = 739924, stdout = [], page = []\<rparr>)
   = fst (calculate_bond_price (\<lambda>s. Some 740290) 1000 (5 / 100) ''2027-11-05'' 0 2
          \<lparr>clock = 739924, stdout = [''earlier output''], page = [''earlier error'']\<rparr>)
   \<and> fst (calculate_bond_price_dashboard 1000 (5 / 100) 740290 0 2
          \<lparr>clock = 739924, stdout = [], page = []\<rparr>)
   = fst (calculate_bond_price_dashboard 1000 (5 / 100) 740290 0 2
          \<lparr>clock = 739924, stdout = [''earlier output''], page = [''earlier error'']\<rparr>)"
  using result_depends_on_clock_only
    [of "\<lparr>clock = 739924, stdout = [], page = []\<rparr>"
        "\<lparr>clock = 739924, stdout = [''earlier output''], page = [''earlier error'']\<rparr>"
        "\<lambda>s. Some 740290" 1000 "5 / 100" "''2027-11-05''" 0 2 740290]
  by simp

text \<open>
  The same arguments on two different days: a price on 2026-11-04, \<^verbatim>\<open>None\<close> on
  2027-11-06, the day after maturity.
\<close>

theorem result_changes_with_the_clock:
  "fst (calculate_bond_price (\<lambda>s. Some 740290) 1000 (5 / 100) ''2027-11-05'' 0 2
          \<lparr>clock = 739924, stdout = [], page = []\<rparr>) = Inr (PyFloat 1075)
   \<and> fst (calculate_bond_price (\<lambda>s. Some 740290) 1000 (5 / 100) ''2027-11-05'' 0 2
          \<lparr>clock = 740291, stdout = [], page = []\<rparr>) = Inr PyNone
   \<and> fst (calculate_bond_price_dashboard 1000 (5 / 100) 740290 0 2
          \<lparr>clock = 739924, stdout = [], page = []\<rparr>) = PyFloat 1075
   \<and> fst (calculate_bond_price_dashboard 1000 (5 / 100) 740290 0 2
          \<lparr>clock = 740291, stdout = [], page = []\<rparr>) = PyNone"
  by (simp add: np1 calculate_bond_price_def calculate_bond_price_dashboard_def Let_def
      py_pow_def py_div_def np_power_def np_divide_def periodic_ytm_def
      periodic_coupon_payment_def)

subsection \<open>Price against yield\<close>






subsection \<open>The sampled price curve\<close>















end
